theory Spec2Isabelle
  imports Main
begin

section \<open>JavaScript values, completions and callbacks\<close>

text \<open>
  The promise stores and forwards untyped JavaScript values (\<^verbatim>\<open>any\<close>). The only
  operation the source applies to such a value is the truthiness test hidden in
  \<^verbatim>\<open>a || b\<close>, so a value is modelled by its shape. Numbers are integers here:
  floating point is not modelled, and \<^verbatim>\<open>NaN\<close>, which is falsy as well, is left out.
\<close>

datatype jsval =
    JUndefined
  | JNull
  | JBool bool
  | JNum int
  | JStr string
  | JObj "(string \<times> jsval) list"

fun truthy :: "jsval \<Rightarrow> bool" where
  "truthy JUndefined = False"
| "truthy JNull = False"
| "truthy (JBool b) = b"
| "truthy (JNum n) = (n \<noteq> 0)"
| "truthy (JStr s) = (s \<noteq> [])"
| "truthy (JObj kvs) = True"

text \<open>\<^verbatim>\<open>a || b\<close>: the left operand when it is truthy, the right one otherwise.\<close>

definition js_or :: "jsval \<Rightarrow> jsval \<Rightarrow> jsval" where
  "js_or a b = (if truthy a then a else b)"

text \<open>A call either returns or throws a value; a \<^verbatim>\<open>throw\<close> is a branch of the model.\<close>

datatype 'a completion = Throws jsval | Returns 'a

definition discard :: "jsval completion \<Rightarrow> unit completion" where
  "discard r = (case r of Throws e \<Rightarrow> Throws e | Returns x \<Rightarrow> Returns ())"

text \<open>
  A callback is a function object. Its \<open>body\<close> maps the argument list to what the call
  returns or throws; its \<open>label\<close> identifies the function object, as a mock function of
  the test suite does, so that the record of calls tells which callback ran. Callbacks
  are taken not to call back into the promise they are registered on.
\<close>

record callback =
  label :: string
  body :: "jsval list \<Rightarrow> jsval completion"

text \<open>The arrow function \<^verbatim>\<open>() => {}\<close> of the field initialisers.\<close>

definition noop :: "string \<Rightarrow> callback" where
  "noop l = \<lparr>label = l, body = (\<lambda>args. Returns JUndefined)\<rparr>"

type_synonym call = "string \<times> jsval list"

section \<open>PromiseContext\<close>

datatype status = Pending | Resolved | Rejected | Cancelled

text \<open>
  The fields of \<^verbatim>\<open>PromiseContext\<close> in the order of the source. Field \<^verbatim>\<open>value\<close> is
  \<open>value_ok\<close> here. A field of type \<^verbatim>\<open>Function | null\<close>, and \<^verbatim>\<open>failCallback\<close>, which
  \<^verbatim>\<open>reject\<close> tests for truthiness before calling it, is an option. The last field
  \<open>calls\<close> is not in the source: it records every callback invocation (label and
  arguments) in order.
\<close>

record PromiseContext =
  status :: status
  thenValue :: jsval
  catchCallback :: "callback option"
  thenError :: jsval
  okCallback :: callback
  value_ok :: jsval
  failCallback :: "callback option"
  error :: jsval
  finallyCallback :: callback
  cancelledCallback :: "callback option"
  isAwaited :: bool
  calls :: "call list"

definition new_PromiseContext :: PromiseContext where
  "new_PromiseContext =
     \<lparr>status = Pending,
      thenValue = JUndefined,
      catchCallback = None,
      thenError = JUndefined,
      okCallback = noop ''okCallback0'',
      value_ok = JUndefined,
      failCallback = Some (noop ''failCallback0''),
      error = JUndefined,
      finallyCallback = noop ''finallyCallback0'',
      cancelledCallback = None,
      isAwaited = False,
      calls = []\<rparr>"

text \<open>Calling a function object: run its body and record the call.\<close>

definition invoke ::
  "callback \<Rightarrow> jsval list \<Rightarrow> PromiseContext \<Rightarrow> jsval completion \<times> PromiseContext" where
  "invoke f args c = (body f args, c\<lparr>calls := calls c @ [(label f, args)]\<rparr>)"

text \<open>\<^verbatim>\<open>func.apply(null, [this.thenValue, this.error || this.thenError])\<close>\<close>

definition callAsFinally ::
  "callback \<Rightarrow> PromiseContext \<Rightarrow> unit completion \<times> PromiseContext" where
  "callAsFinally func c =
     (case invoke func [thenValue c, js_or (error c) (thenError c)] c of
        (r, c1) \<Rightarrow> (discard r, c1))"

definition callCatchCallbackOrPropagate ::
  "jsval \<Rightarrow> PromiseContext \<Rightarrow> jsval completion \<times> PromiseContext" where
  "callCatchCallbackOrPropagate err c =
     (case catchCallback c of
        None \<Rightarrow> (Throws err, c)
      | Some f \<Rightarrow> invoke f [err] c)"

section \<open>BaseTypedPromise: the registration surface\<close>

text \<open>
  Every method mutates the context and returns \<^verbatim>\<open>this\<close>; the model returns the
  completion of the call and the context after it. A context changed before a throw
  stays changed.
\<close>

definition ok :: "callback \<Rightarrow> PromiseContext \<Rightarrow> unit completion \<times> PromiseContext" where
  "ok callback c =
     (if status c = Resolved then
        (case invoke callback [value_ok c] c of
           (Returns r, c1) \<Rightarrow> (Returns (), c1\<lparr>value_ok := js_or r (value_ok c1)\<rparr>)
         | (Throws err, c1) \<Rightarrow>
             (case callCatchCallbackOrPropagate err c1 of
                (Returns r, c2) \<Rightarrow> (Returns (), c2\<lparr>thenError := r\<rparr>)
              | (Throws e2, c2) \<Rightarrow> (Throws e2, c2)))
      else (Returns (), c\<lparr>okCallback := callback\<rparr>))"

definition fail :: "callback \<Rightarrow> PromiseContext \<Rightarrow> unit completion \<times> PromiseContext" where
  "fail callback c =
     (if status c = Rejected then
        (case invoke callback [error c] c of (r, c1) \<Rightarrow> (discard r, c1))
      else (Returns (), c\<lparr>failCallback := Some callback\<rparr>))"

definition catch :: "callback \<Rightarrow> PromiseContext \<Rightarrow> unit completion \<times> PromiseContext" where
  "catch callback c =
     (if status c = Rejected then
        (case invoke callback [error c] c of (r, c1) \<Rightarrow> (discard r, c1))
      else (Returns (), c\<lparr>catchCallback := Some callback\<rparr>))"

definition cancelled :: "callback \<Rightarrow> PromiseContext \<Rightarrow> unit completion \<times> PromiseContext" where
  "cancelled callback c =
     (if status c = Cancelled then
        (case invoke callback [] c of (r, c1) \<Rightarrow> (discard r, c1))
      else (Returns (), c\<lparr>cancelledCallback := Some callback\<rparr>))"

text \<open>Method \<^verbatim>\<open>finally\<close>.\<close>

definition finally_op ::
  "callback \<Rightarrow> PromiseContext \<Rightarrow> unit completion \<times> PromiseContext" where
  "finally_op callback c =
     (if status c = Resolved \<or> status c = Rejected then callAsFinally callback c
      else (Returns (), c\<lparr>finallyCallback := callback\<rparr>))"

definition cancel :: "PromiseContext \<Rightarrow> PromiseContext" where
  "cancel c = c\<lparr>status := Cancelled\<rparr>"

section \<open>TypedPromise: the await bridge and the settlement entry points\<close>

text \<open>
  Method \<^verbatim>\<open>then\<close>. Its second parameter is optional. When the success callback throws
  and the throw propagates, the assignment of \<^verbatim>\<open>rejected\<close> is not reached.
\<close>

definition then_op ::
  "callback \<Rightarrow> callback option \<Rightarrow> PromiseContext \<Rightarrow> unit completion \<times> PromiseContext" where
  "then_op callback rejected c =
     (let c0 = c\<lparr>isAwaited := True\<rparr> in
      case (if status c0 = Resolved then
              (case invoke callback [value_ok c0] c0 of
                 (Returns r, c1) \<Rightarrow> (Returns (), c1\<lparr>value_ok := js_or r (value_ok c1)\<rparr>)
               | (Throws err, c1) \<Rightarrow>
                   (case callCatchCallbackOrPropagate err c1 of
                      (Returns r, c2) \<Rightarrow> (Returns (), c2\<lparr>thenError := r\<rparr>)
                    | (Throws e2, c2) \<Rightarrow> (Throws e2, c2)))
            else (Returns (), c0\<lparr>okCallback := callback\<rparr>)) of
        (Throws e, c3) \<Rightarrow> (Throws e, c3)
      | (Returns u, c3) \<Rightarrow>
          (case rejected of
             Some f \<Rightarrow> (Returns (), c3\<lparr>failCallback := Some f\<rparr>)
           | None \<Rightarrow> (Returns (), c3)))"

text \<open>The object literal \<^verbatim>\<open>{ cancelled: true }\<close>.\<close>

definition cancel_signal :: jsval where
  "cancel_signal = JObj [(''cancelled'', JBool True)]"

text \<open>What calling a slot that holds no function throws.\<close>

definition not_a_function :: jsval where
  "not_a_function = JObj [(''name'', JStr ''TypeError'')]"

text \<open>
  The branch \<^verbatim>\<open>if (this.context.status === 'cancelled') { ... return; }\<close>, which
  \<^verbatim>\<open>resolve\<close> and \<^verbatim>\<open>reject\<close> both start with, word for word.
\<close>

definition settle_cancelled :: "PromiseContext \<Rightarrow> unit completion \<times> PromiseContext" where
  "settle_cancelled c =
     (case (case cancelledCallback c of
              None \<Rightarrow> (Returns JUndefined, c)
            | Some f \<Rightarrow> invoke f [] c) of
        (Throws e, c1) \<Rightarrow> (Throws e, c1)
      | (Returns u, c1) \<Rightarrow>
          (if isAwaited c1 then
             (case failCallback c1 of
                Some f \<Rightarrow> (case invoke f [cancel_signal] c1 of (r, c2) \<Rightarrow> (discard r, c2))
              | None \<Rightarrow> (Throws not_a_function, c1))
           else (Returns (), c1)))"

definition resolve :: "jsval \<Rightarrow> PromiseContext \<Rightarrow> unit completion \<times> PromiseContext" where
  "resolve v c =
     (if status c = Cancelled then settle_cancelled c
      else
        (let c1 = c\<lparr>status := Resolved, value_ok := v, thenValue := v\<rparr> in
         case (case invoke (okCallback c1) [value_ok c1] c1 of
                 (Returns r, c2) \<Rightarrow> (Returns (), c2\<lparr>thenValue := js_or r v\<rparr>)
               | (Throws err, c2) \<Rightarrow>
                   (case callCatchCallbackOrPropagate err c2 of
                      (Returns r, c3) \<Rightarrow> (Returns (), c3\<lparr>thenError := r\<rparr>)
                    | (Throws e2, c3) \<Rightarrow> (Throws e2, c3))) of
           (Throws e, c4) \<Rightarrow> (Throws e, c4)
         | (Returns u, c4) \<Rightarrow> callAsFinally (finallyCallback c4) c4))"

definition reject :: "jsval \<Rightarrow> PromiseContext \<Rightarrow> unit completion \<times> PromiseContext" where
  "reject v c =
     (if status c = Cancelled then settle_cancelled c
      else
        (let c1 = c\<lparr>status := Rejected, error := v\<rparr> in
         case failCallback c1 of
           Some f \<Rightarrow>
             (case invoke f [error c1] c1 of
                (Throws e, c2) \<Rightarrow> (Throws e, c2)
              | (Returns u, c2) \<Rightarrow> callAsFinally (finallyCallback c2) c2)
         | None \<Rightarrow> (Throws (error c1), c1)))"

section \<open>The constructor and sequences of operations\<close>

text \<open>
  The constructor creates the context and runs the producer \<^verbatim>\<open>action\<close> with the two
  settlement entry points. What the producer does synchronously is the list of
  settlement calls it makes before it returns (none when it settles later, from a
  timer or an I/O completion); a throw of a settlement call that the producer does not
  catch leaves the constructor.
\<close>

datatype settlement = Resolve jsval | Reject jsval

fun settle :: "settlement \<Rightarrow> PromiseContext \<Rightarrow> unit completion \<times> PromiseContext" where
  "settle (Resolve v) c = resolve v c"
| "settle (Reject e) c = reject e c"

fun run_action :: "settlement list \<Rightarrow> PromiseContext \<Rightarrow> unit completion \<times> PromiseContext" where
  "run_action [] c = (Returns (), c)"
| "run_action (s # ss) c =
     (case settle s c of
        (Throws e, c1) \<Rightarrow> (Throws e, c1)
      | (Returns u, c1) \<Rightarrow> run_action ss c1)"

definition TypedPromise :: "settlement list \<Rightarrow> unit completion \<times> PromiseContext" where
  "TypedPromise action = run_action action new_PromiseContext"

text \<open>
  One call on an instance: a registration, the cancellation request, the await bridge,
  or a settlement made by the producer. A caller may catch what a call throws and go
  on, so a sequence of calls runs to its end on the context each call leaves.
\<close>

datatype operation =
    Ok callback
  | Fail callback
  | Catch callback
  | OnCancelled callback
  | Finally callback
  | Cancel
  | Then callback "callback option"
  | Settle settlement

fun apply_op :: "operation \<Rightarrow> PromiseContext \<Rightarrow> unit completion \<times> PromiseContext" where
  "apply_op (Ok f) c = ok f c"
| "apply_op (Fail f) c = fail f c"
| "apply_op (Catch f) c = catch f c"
| "apply_op (OnCancelled f) c = cancelled f c"
| "apply_op (Finally f) c = finally_op f c"
| "apply_op Cancel c = (Returns (), cancel c)"
| "apply_op (Then f g) c = then_op f g c"
| "apply_op (Settle s) c = settle s c"

fun run :: "operation list \<Rightarrow> PromiseContext \<Rightarrow> PromiseContext" where
  "run [] c = c"
| "run (x # xs) c = run xs (snd (apply_op x c))"

fun is_registration :: "operation \<Rightarrow> bool" where
  "is_registration Cancel = False"
| "is_registration (Settle s) = False"
| "is_registration x = True"

text \<open>
  The public methods, those of \<^verbatim>\<open>BaseTypedPromise\<close>: the five registrations and
  \<^verbatim>\<open>cancel\<close>. The await bridge and the settlement entry points are not among them.
\<close>

fun base_method :: "operation \<Rightarrow> bool" where
  "base_method (Then f g) = False"
| "base_method (Settle s) = False"
| "base_method x = True"

text \<open>
  The calls that a list of operations makes when it runs on a cancelled context and
  holds public methods only: each \<^verbatim>\<open>cancelled(f)\<close> calls \<open>f\<close> with no argument.
\<close>

fun late_observer_calls :: "operation list \<Rightarrow> call list" where
  "late_observer_calls [] = []"
| "late_observer_calls (OnCancelled f # xs) = (label f, []) # late_observer_calls xs"
| "late_observer_calls (x # xs) = late_observer_calls xs"

text \<open>The labels of the callbacks invoked on the way from context \<open>c\<close> to \<open>c'\<close>, in order.\<close>

definition invoked :: "PromiseContext \<Rightarrow> PromiseContext \<Rightarrow> string list" where
  "invoked c c' = map fst (drop (length (calls c)) (calls c'))"

section \<open>Callbacks of the scenarios\<close>

text \<open>A callback that returns \<open>r\<close>, and one that throws \<open>x\<close>, whatever the arguments.\<close>

definition returning :: "string \<Rightarrow> jsval \<Rightarrow> callback" where
  "returning l r = \<lparr>label = l, body = (\<lambda>args. Returns r)\<rparr>"

definition throwing :: "string \<Rightarrow> jsval \<Rightarrow> callback" where
  "throwing l x = \<lparr>label = l, body = (\<lambda>args. Throws x)\<rparr>"

text \<open>
  The callback \<^verbatim>\<open>v => v + 1\<close>, on a number. The scenarios call it on numbers only; on
  anything else this model of it returns \<^verbatim>\<open>undefined\<close>.
\<close>

definition plus_one :: callback where
  "plus_one =
     \<lparr>label = ''plus_one'',
      body = (\<lambda>args. case args of [JNum n] \<Rightarrow> Returns (JNum (n + 1)) | _ \<Rightarrow> Returns JUndefined)\<rparr>"

section \<open>Facts about the operations\<close>

lemmas op_defs =
  ok_def fail_def catch_def cancelled_def finally_op_def cancel_def then_op_def
  resolve_def reject_def settle_cancelled_def callAsFinally_def
  callCatchCallbackOrPropagate_def invoke_def discard_def

section \<open>Registration of the cancellation observer\<close>

text \<open>
  Claim C10. Registering the cancellation observer with \<^verbatim>\<open>cancelled(cb)\<close> on a context
  whose state is already cancelled calls \<open>cb\<close> at once, with no argument, inside the
  registration call: the call is recorded, the registration call completes as \<open>cb\<close>
  does, and nothing else of the context changes. In particular the stored cancellation
  observer stays what it was, so a later settlement attempt still calls that one.
\<close>

theorem cancelled_registration_invokes_now:
  "status c = Cancelled \<Longrightarrow>
     cancelled cb c = (discard (body cb []), c\<lparr>calls := calls c @ [(label cb, [])]\<rparr>)"
  by (simp add: cancelled_def invoke_def)

theorem cancelled_registration_invokes_now_witness:
  "status (cancel new_PromiseContext) = Cancelled \<and>
   cancelled (throwing ''cb'' (JNum 7)) (cancel new_PromiseContext) =
     (Throws (JNum 7), (cancel new_PromiseContext)\<lparr>calls := [(''cb'', [])]\<rparr>)"
  using cancelled_registration_invokes_now
    [of "cancel new_PromiseContext" "throwing ''cb'' (JNum 7)"]
  by (simp add: cancel_def new_PromiseContext_def throwing_def discard_def)

section \<open>The state of the context\<close>

text \<open>
  The cancelled branch of a settlement call never assigns the state, no registration
  does, and the two assignments of \<^verbatim>\<open>'resolved'\<close> and \<^verbatim>\<open>'rejected'\<close> sit behind the
  test for \<^verbatim>\<open>'cancelled'\<close>.
\<close>

lemma settle_cancelled_status: "status (snd (settle_cancelled c)) = status c"
  by (auto simp: settle_cancelled_def invoke_def discard_def
      split: prod.splits completion.splits option.splits)

lemma apply_op_cancelled:
  assumes "status c = Cancelled"
  shows "status (snd (apply_op x c)) = Cancelled"
proof (cases x)
  case (Settle s)
  with assms show ?thesis
    by (cases s) (simp_all add: resolve_def reject_def settle_cancelled_status)
next
  case (Then f g)
  with assms show ?thesis
    by (cases g) (simp_all add: then_op_def Let_def)
qed (use assms in \<open>simp_all add: ok_def fail_def catch_def cancelled_def finally_op_def
      cancel_def invoke_def discard_def\<close>)

lemma run_cancelled: "status c = Cancelled \<Longrightarrow> status (run xs c) = Cancelled"
  by (induction xs arbitrary: c) (simp_all add: apply_op_cancelled)

lemma registration_keeps_status: "is_registration x \<Longrightarrow> status (snd (apply_op x c)) = status c"
  by (cases x) (auto simp: op_defs Let_def split: prod.splits completion.splits option.splits)

text \<open>
  The method \<^verbatim>\<open>cancel\<close> assigns \<^verbatim>\<open>'cancelled'\<close> without looking at the state: called
  on a resolved context it moves the state from resolved to cancelled.
\<close>

theorem cancel_after_resolve_counterexample:
  "status (snd (resolve (JNum 1) new_PromiseContext)) = Resolved \<and>
   status (cancel (snd (resolve (JNum 1) new_PromiseContext))) = Cancelled"
  by (simp add: op_defs new_PromiseContext_def noop_def Let_def)

text \<open>
  Claim C2, as the code has it. The cancelled state is terminal: once the state is
  cancelled, no sequence of calls changes it. \<^verbatim>\<open>cancel()\<close> sets the state to
  cancelled from every state, so from resolved and rejected as well as from pending.
  The registration calls and the await bridge never change the state.
\<close>

theorem cancelled_is_terminal:
  "(status c = Cancelled \<longrightarrow> status (run xs c) = Cancelled) \<and>
   status (cancel c) = Cancelled \<and>
   (is_registration x \<longrightarrow> status (snd (apply_op x c)) = status c)"
  by (simp add: run_cancelled registration_keeps_status cancel_def)

theorem cancelled_is_terminal_witness:
  "status (cancel new_PromiseContext) = Cancelled \<and>
   status (run [Settle (Resolve (JNum 1)), Ok plus_one, Settle (Reject (JNum 2)), Cancel]
             (cancel new_PromiseContext)) = Cancelled \<and>
   is_registration (Finally (noop ''cleanup'')) \<and>
   status (snd (apply_op (Finally (noop ''cleanup'')) (snd (resolve (JNum 1) new_PromiseContext))))
     = Resolved"
  using cancelled_is_terminal [of "cancel new_PromiseContext"
      "[Settle (Resolve (JNum 1)), Ok plus_one, Settle (Reject (JNum 2)), Cancel]"
      "Finally (noop ''cleanup'')"]
    cancelled_is_terminal [of "snd (resolve (JNum 1) new_PromiseContext)" "[]"
      "Finally (noop ''cleanup'')"]
  by (simp add: op_defs new_PromiseContext_def noop_def Let_def)

section \<open>Rejection with no failure observer registered\<close>

text \<open>
  The field \<^verbatim>\<open>failCallback\<close> starts as \<^verbatim>\<open>() => {}\<close>, which is truthy, so on a fresh
  context the test \<^verbatim>\<open>if (this.context.failCallback)\<close> of \<^verbatim>\<open>reject\<close> succeeds and the
  \<^verbatim>\<open>else throw\<close> is not taken: \<^verbatim>\<open>reject(418)\<close> returns. The test suite relies on it,
  rejecting inside the constructor and registering \<^verbatim>\<open>fail\<close> afterwards.
\<close>

theorem reject_unobserved_counterexample:
  "reject (JNum 418) new_PromiseContext =
     (Returns (),
      new_PromiseContext\<lparr>status := Rejected, error := JNum 418,
        calls := [(''failCallback0'', [JNum 418]),
                  (''finallyCallback0'', [JUndefined, JNum 418])]\<rparr>) \<and>
   fst (reject (JNum 418) new_PromiseContext) \<noteq> Throws (JNum 418)"
  by (simp add: op_defs new_PromiseContext_def noop_def Let_def js_or_def)

text \<open>
  Claim C1, as the code has it. On a pending context whose failure observer is still
  the initial one, \<^verbatim>\<open>reject(e)\<close> does not re-raise \<open>e\<close>: the state becomes rejected,
  \<open>e\<close> is stored as the error (a later \<^verbatim>\<open>fail\<close> registration receives it), the
  initial no-op failure observer and then the cleanup observer are called, and the call
  completes as the call of the cleanup observer, the last one recorded, completes.
\<close>

theorem reject_unobserved_not_raised:
  assumes "status c = Pending"
    and "failCallback c = failCallback new_PromiseContext"
  shows "status (snd (reject e c)) = Rejected \<and>
         error (snd (reject e c)) = e \<and>
         invoked c (snd (reject e c)) = [''failCallback0'', label (finallyCallback c)] \<and>
         fst (reject e c) =
           discard (body (finallyCallback c) (snd (last (calls (snd (reject e c))))))"
  using assms
  by (simp add: op_defs new_PromiseContext_def noop_def Let_def invoked_def)

theorem reject_unobserved_not_raised_witness:
  "status new_PromiseContext = Pending \<and>
   status (snd (reject (JNum 418) new_PromiseContext)) = Rejected \<and>
   error (snd (reject (JNum 418) new_PromiseContext)) = JNum 418 \<and>
   invoked new_PromiseContext (snd (reject (JNum 418) new_PromiseContext)) =
     [''failCallback0'', ''finallyCallback0''] \<and>
   fst (reject (JNum 418) new_PromiseContext) = Returns ()"
  using reject_unobserved_not_raised [of new_PromiseContext "JNum 418"]
  by (simp add: op_defs new_PromiseContext_def noop_def Let_def)

section \<open>The value staged for the cleanup observer\<close>

text \<open>
  What the settlement calls pass to the cleanup observer, the last call recorded. At
  resolution the result \<open>r\<close> of the success observer is staged as \<^verbatim>\<open>r || v\<close>, so a
  truthy result replaces \<open>v\<close> and \<^verbatim>\<open>undefined\<close> keeps it. A result of the
  error-recovery observer reaches the cleanup observer as it is, next to the resolved
  value. A rejection value reaches it when it is truthy.
\<close>

lemma resolve_stages_result:
  assumes "status c \<noteq> Cancelled" and "body (okCallback c) [v] = Returns r"
  shows "thenValue (snd (resolve v c)) = js_or r v"
    and "last (calls (snd (resolve v c))) =
           (label (finallyCallback c), [js_or r v, js_or (error c) (thenError c)])"
  using assms by (simp_all add: op_defs Let_def)

lemma resolve_recovered_error:
  assumes "status c \<noteq> Cancelled" and "body (okCallback c) [v] = Throws x"
    and "catchCallback c = Some h" and "body h [x] = Returns r" and "error c = JUndefined"
  shows "last (calls (snd (resolve v c))) = (label (finallyCallback c), [v, r])"
  using assms by (simp add: op_defs Let_def js_or_def)

lemma reject_truthy_error:
  assumes "status c \<noteq> Cancelled" and "failCallback c = Some f" and "body f [e] = Returns r"
    and "truthy e \<or> e = JUndefined \<and> thenError c = JUndefined"
  shows "last (calls (snd (reject e c))) = (label (finallyCallback c), [thenValue c, e])"
  using assms by (auto simp: op_defs Let_def js_or_def)

text \<open>
  Claim C3, evaluated on the scenario. The producer resolves with 42 inside the
  constructor, then \<^verbatim>\<open>ok(v => v + 1)\<close> is registered, then \<^verbatim>\<open>finally\<close>. On a resolved
  context \<^verbatim>\<open>ok\<close> assigns the callback's result to \<^verbatim>\<open>value\<close> and leaves \<^verbatim>\<open>thenValue\<close>,
  which is what \<^verbatim>\<open>callAsFinally\<close> passes on: \<^verbatim>\<open>value\<close> is 43, \<^verbatim>\<open>thenValue\<close> stays 42,
  and the cleanup observer is called with \<^verbatim>\<open>(42, undefined)\<close>, not \<^verbatim>\<open>(43, undefined)\<close>.
\<close>

theorem late_ok_result_not_staged:
  "value_ok (run [Ok plus_one] (snd (TypedPromise [Resolve (JNum 42)]))) = JNum 43 \<and>
   thenValue (run [Ok plus_one] (snd (TypedPromise [Resolve (JNum 42)]))) = JNum 42 \<and>
   calls (run [Ok plus_one, Finally (noop ''cleanup'')]
            (snd (TypedPromise [Resolve (JNum 42)]))) =
     [(''okCallback0'', [JNum 42]), (''finallyCallback0'', [JNum 42, JUndefined]),
      (''plus_one'', [JNum 42]), (''cleanup'', [JNum 42, JUndefined])]"
  by (simp add: op_defs TypedPromise_def new_PromiseContext_def noop_def plus_one_def
      Let_def js_or_def)

text \<open>
  Claim C4, evaluated on a rejection with the number 0. \<^verbatim>\<open>callAsFinally\<close> computes its
  second argument as \<^verbatim>\<open>this.error || this.thenError\<close>; 0 is falsy, so the cleanup
  observer is called with \<^verbatim>\<open>(undefined, undefined)\<close>, not \<^verbatim>\<open>(undefined, 0)\<close>.
\<close>

theorem falsy_rejection_lost_in_cleanup:
  "calls (run [Finally (noop ''cleanup''), Settle (Reject (JNum 0))] new_PromiseContext) =
     [(''failCallback0'', [JNum 0]), (''cleanup'', [JUndefined, JUndefined])]"
  by (simp add: op_defs new_PromiseContext_def noop_def Let_def js_or_def)

text \<open>
  Claim C5, evaluated on two inputs. A success callback registered before
  \<^verbatim>\<open>resolve(5)\<close> that returns 0: \<^verbatim>\<open>okCallback(value) || value\<close> keeps 5, since 0 is
  falsy. A success callback registered after \<^verbatim>\<open>resolve(5)\<close> that returns 7: \<^verbatim>\<open>ok\<close>
  assigns \<^verbatim>\<open>value\<close>, and the staged \<^verbatim>\<open>thenValue\<close> stays 5.
\<close>

theorem falsy_return_not_staged:
  "thenValue (run [Ok (returning ''cb'' (JNum 0)), Settle (Resolve (JNum 5))]
                new_PromiseContext) = JNum 5 \<and>
   thenValue (run [Settle (Resolve (JNum 5)), Ok (returning ''cb'' (JNum 7))]
                new_PromiseContext) = JNum 5"
  by (simp add: op_defs new_PromiseContext_def noop_def returning_def Let_def js_or_def)

section \<open>When the cleanup observer runs\<close>

text \<open>
  A success observer that throws with no error-recovery observer registered: the
  thrown value leaves \<^verbatim>\<open>resolve\<close> through \<^verbatim>\<open>callCatchCallbackOrPropagate\<close>, before
  the call of \<^verbatim>\<open>callAsFinally\<close>. The state is resolved and the registered cleanup
  observer has not been called.
\<close>

theorem cleanup_skipped_counterexample:
  "status (run [Ok (throwing ''ok'' (JNum 33)), Finally (noop ''cleanup''),
                Settle (Resolve (JNum 1))] new_PromiseContext) = Resolved \<and>
   calls (run [Ok (throwing ''ok'' (JNum 33)), Finally (noop ''cleanup''),
               Settle (Resolve (JNum 1))] new_PromiseContext) = [(''ok'', [JNum 1])] \<and>
   fst (resolve (JNum 1) (run [Ok (throwing ''ok'' (JNum 33)), Finally (noop ''cleanup'')]
                            new_PromiseContext)) = Throws (JNum 33)"
  by (simp add: op_defs new_PromiseContext_def noop_def throwing_def Let_def js_or_def)

text \<open>
  Claim C6, as the code has it. A settlement of a context that is not cancelled reaches
  the resolved, respectively rejected, state, and the cleanup observer is called, last,
  exactly when no throw leaves the settlement call before it. \<^verbatim>\<open>resolve\<close> calls the
  success observer; when that returns, the cleanup observer follows; when it throws and
  an error-recovery observer is registered, that one is called and the cleanup observer
  follows if it returns; when the success observer throws with no error-recovery
  observer, or the error-recovery observer throws, nothing more is called and the
  thrown value leaves \<^verbatim>\<open>resolve\<close>. \<^verbatim>\<open>reject\<close> calls the failure observer; the cleanup
  observer follows if it returns, and what it throws leaves \<^verbatim>\<open>reject\<close> with nothing
  more called. Whenever the cleanup observer is called, the settlement call completes
  as that call, the last one recorded, completes.
\<close>

theorem cleanup_runs_unless_throw_propagates:
  assumes "status c \<noteq> Cancelled"
  shows "status (snd (resolve v c)) = Resolved \<and>
         invoked c (snd (resolve v c)) =
           label (okCallback c) #
           (case body (okCallback c) [v] of
              Returns r \<Rightarrow> [label (finallyCallback c)]
            | Throws x \<Rightarrow>
                (case catchCallback c of
                   None \<Rightarrow> []
                 | Some h \<Rightarrow>
                     label h #
                     (case body h [x] of
                        Returns r \<Rightarrow> [label (finallyCallback c)]
                      | Throws y \<Rightarrow> []))) \<and>
         fst (resolve v c) =
           (case body (okCallback c) [v] of
              Returns r \<Rightarrow>
                discard (body (finallyCallback c) (snd (last (calls (snd (resolve v c))))))
            | Throws x \<Rightarrow>
                (case catchCallback c of
                   None \<Rightarrow> Throws x
                 | Some h \<Rightarrow>
                     (case body h [x] of
                        Returns r \<Rightarrow>
                          discard (body (finallyCallback c)
                                     (snd (last (calls (snd (resolve v c))))))
                      | Throws y \<Rightarrow> Throws y))) \<and>
         status (snd (reject e c)) = Rejected \<and>
         invoked c (snd (reject e c)) =
           (case failCallback c of
              None \<Rightarrow> []
            | Some f \<Rightarrow>
                label f #
                (case body f [e] of
                   Returns r \<Rightarrow> [label (finallyCallback c)]
                 | Throws x \<Rightarrow> [])) \<and>
         fst (reject e c) =
           (case failCallback c of
              None \<Rightarrow> Throws e
            | Some f \<Rightarrow>
                (case body f [e] of
                   Returns r \<Rightarrow>
                     discard (body (finallyCallback c) (snd (last (calls (snd (reject e c))))))
                 | Throws x \<Rightarrow> Throws x))"
  using assms
  by (auto simp: op_defs Let_def invoked_def
      split: completion.splits option.splits prod.splits)

theorem cleanup_runs_unless_throw_propagates_witness:
  "status (run [Ok (throwing ''ok'' (JStr ''test'')), Catch (returning ''catch'' (JStr ''catched'')),
                Finally (noop ''cleanup'')] new_PromiseContext) \<noteq> Cancelled \<and>
   invoked new_PromiseContext
     (run [Ok (throwing ''ok'' (JStr ''test'')), Catch (returning ''catch'' (JStr ''catched'')),
           Finally (noop ''cleanup''), Settle (Resolve (JNum 418))] new_PromiseContext) =
     [''ok'', ''catch'', ''cleanup''] \<and>
   fst (resolve (JNum 418)
          (run [Ok (throwing ''ok'' (JStr ''test'')),
                Catch (returning ''catch'' (JStr ''catched'')),
                Finally (noop ''cleanup'')] new_PromiseContext)) = Returns () \<and>
   status (run [Ok (throwing ''ok'' (JNum 33)), Fail (throwing ''fail'' (JNum 34)),
                Finally (noop ''cleanup'')] new_PromiseContext) \<noteq> Cancelled \<and>
   invoked new_PromiseContext
     (run [Ok (throwing ''ok'' (JNum 33)), Fail (throwing ''fail'' (JNum 34)),
           Finally (noop ''cleanup''), Settle (Resolve (JNum 1))] new_PromiseContext) = [''ok''] \<and>
   fst (resolve (JNum 1)
          (run [Ok (throwing ''ok'' (JNum 33)), Fail (throwing ''fail'' (JNum 34)),
                Finally (noop ''cleanup'')] new_PromiseContext)) = Throws (JNum 33) \<and>
   invoked new_PromiseContext
     (run [Ok (throwing ''ok'' (JNum 33)), Fail (throwing ''fail'' (JNum 34)),
           Finally (noop ''cleanup''), Settle (Reject (JNum 2))] new_PromiseContext) = [''fail''] \<and>
   fst (reject (JNum 2)
          (run [Ok (throwing ''ok'' (JNum 33)), Fail (throwing ''fail'' (JNum 34)),
                Finally (noop ''cleanup'')] new_PromiseContext)) = Throws (JNum 34)"
  using cleanup_runs_unless_throw_propagates
      [of "run [Ok (throwing ''ok'' (JStr ''test'')),
                Catch (returning ''catch'' (JStr ''catched'')),
                Finally (noop ''cleanup'')] new_PromiseContext" "JNum 418" "JNum 418"]
    cleanup_runs_unless_throw_propagates
      [of "run [Ok (throwing ''ok'' (JNum 33)), Fail (throwing ''fail'' (JNum 34)),
                Finally (noop ''cleanup'')] new_PromiseContext" "JNum 1" "JNum 2"]
  by (simp add: op_defs new_PromiseContext_def noop_def throwing_def returning_def invoked_def
      Let_def js_or_def)

section \<open>The error-recovery observer\<close>

text \<open>
  Claim C7, evaluated on a promise that is simply rejected. \<^verbatim>\<open>catch\<close> has the body of
  \<^verbatim>\<open>fail\<close>: on a rejected context it calls its callback with the rejection value. No
  success callback has thrown, none was even called, and the error-recovery callback
  is called with 418.
\<close>

theorem catch_called_on_rejected:
  "calls (run [Settle (Reject (JNum 418)), Catch (noop ''recover'')] new_PromiseContext) =
     [(''failCallback0'', [JNum 418]), (''finallyCallback0'', [JUndefined, JNum 418]),
      (''recover'', [JNum 418])]"
  by (simp add: op_defs new_PromiseContext_def noop_def Let_def js_or_def)

section \<open>Settlement of a cancelled context\<close>

lemma run_append: "run (xs @ ys) c = run ys (run xs c)"
  by (induction xs arbitrary: c) simp_all

lemma base_method_cancelled:
  assumes "status c = Cancelled" and "base_method x"
  shows "status (snd (apply_op x c)) = Cancelled \<and>
         isAwaited (snd (apply_op x c)) = isAwaited c \<and>
         cancelledCallback (snd (apply_op x c)) = cancelledCallback c \<and>
         calls (snd (apply_op x c)) = calls c @ late_observer_calls [x]"
  using assms
  by (cases x)
     (simp_all add: ok_def fail_def catch_def finally_op_def cancelled_def cancel_def
       invoke_def)

lemma late_observer_calls_Cons:
  "late_observer_calls (x # xs) = late_observer_calls [x] @ late_observer_calls xs"
  by (cases x) simp_all

lemma run_base_methods_cancelled:
  assumes "status c = Cancelled" and "list_all base_method regs"
  shows "status (run regs c) = Cancelled \<and>
         isAwaited (run regs c) = isAwaited c \<and>
         cancelledCallback (run regs c) = cancelledCallback c \<and>
         calls (run regs c) = calls c @ late_observer_calls regs"
  using assms
proof (induction regs arbitrary: c)
  case Nil
  then show ?case by simp
next
  case (Cons x regs)
  from Cons.prems have x: "base_method x" and rest: "list_all base_method regs"
    by simp_all
  note step = base_method_cancelled [OF Cons.prems(1) x]
  from step have "status (snd (apply_op x c)) = Cancelled" by simp
  from Cons.IH [OF this rest] step show ?case
    by (simp add: late_observer_calls_Cons [of x regs])
qed

lemma settle_cancelled_not_awaited:
  assumes "status c = Cancelled" and "\<not> isAwaited c"
  shows "settle s c =
           (case cancelledCallback c of
              None \<Rightarrow> (Returns (), c)
            | Some cb \<Rightarrow> (discard (body cb []), c\<lparr>calls := calls c @ [(label cb, [])]\<rparr>))"
  using assms by (cases s) (auto simp: op_defs split: completion.splits option.splits)

text \<open>
  A callback registered as cancellation observer before \<^verbatim>\<open>cancel()\<close> and again after
  it: the second registration calls it at once, the settlement calls the stored one, so
  it is called twice.
\<close>

theorem cancelled_observer_twice_counterexample:
  "calls (run [OnCancelled (noop ''cb''), Cancel, OnCancelled (noop ''cb''),
               Settle (Resolve (JNum 1))] new_PromiseContext) = [(''cb'', []), (''cb'', [])]"
  by (simp add: op_defs new_PromiseContext_def noop_def)

text \<open>
  Claim C8, as the code has it. Take a pending context that is not awaited, whatever
  its observers are, call \<^verbatim>\<open>cancel()\<close>, then any public methods (registrations of any
  role, further \<^verbatim>\<open>cancel()\<close> calls), then one settlement, \<^verbatim>\<open>resolve\<close> or \<^verbatim>\<open>reject\<close> with
  any value. Between the cancellation and the settlement the only callbacks called are
  the cancellation observers registered there, each once, at its registration, and
  these are not stored. The settlement calls the cancellation observer that was stored
  before \<^verbatim>\<open>cancel()\<close>, exactly once and with no argument, if there is one, completes as
  that call does, and calls nothing else. So the success and failure observers are
  never called, and a callback is called exactly once as cancellation observer unless
  it was registered both before and after \<^verbatim>\<open>cancel()\<close> or several times after it.
\<close>

theorem cancel_then_settle_calls_only_cancelled:
  assumes "status c = Pending" and "\<not> isAwaited c" and "list_all base_method regs"
  shows "calls (run (Cancel # regs) c) = calls c @ late_observer_calls regs \<and>
         settle s (run (Cancel # regs) c) =
           (case cancelledCallback c of
              None \<Rightarrow> (Returns (), run (Cancel # regs) c)
            | Some cb \<Rightarrow>
                (discard (body cb []),
                 (run (Cancel # regs) c)
                   \<lparr>calls := calls c @ late_observer_calls regs @ [(label cb, [])]\<rparr>)) \<and>
         calls (run (Cancel # regs @ [Settle s]) c) =
           calls c @ late_observer_calls regs @
           (case cancelledCallback c of None \<Rightarrow> [] | Some cb \<Rightarrow> [(label cb, [])])"
proof -
  have c: "status (cancel c) = Cancelled" "\<not> isAwaited (cancel c)"
    "cancelledCallback (cancel c) = cancelledCallback c" "calls (cancel c) = calls c"
    using assms by (simp_all add: cancel_def)
  note r = run_base_methods_cancelled [OF c(1) assms(3)]
  have run_eq: "run (Cancel # regs) c = run regs (cancel c)" by simp
  have calls_eq: "calls (run (Cancel # regs) c) = calls c @ late_observer_calls regs"
    using r c by simp
  have s: "settle s (run (Cancel # regs) c) =
           (case cancelledCallback c of
              None \<Rightarrow> (Returns (), run (Cancel # regs) c)
            | Some cb \<Rightarrow>
                (discard (body cb []),
                 (run (Cancel # regs) c)
                   \<lparr>calls := calls c @ late_observer_calls regs @ [(label cb, [])]\<rparr>))"
    unfolding run_eq
    using settle_cancelled_not_awaited [of "run regs (cancel c)" s] r c
    by (simp split: option.splits)
  have "run (Cancel # regs @ [Settle s]) c = snd (settle s (run (Cancel # regs) c))"
    by (simp add: run_append)
  then have "calls (run (Cancel # regs @ [Settle s]) c) =
           calls c @ late_observer_calls regs @
           (case cancelledCallback c of None \<Rightarrow> [] | Some cb \<Rightarrow> [(label cb, [])])"
    using s calls_eq by (simp split: option.splits)
  with calls_eq s show ?thesis by simp
qed

theorem cancel_then_settle_calls_only_cancelled_witness:
  "status (run [Ok (throwing ''ok'' (JNum 1)), Fail (throwing ''fail'' (JNum 2)),
                OnCancelled (noop ''done'')] new_PromiseContext) = Pending \<and>
   \<not> isAwaited (run [Ok (throwing ''ok'' (JNum 1)), Fail (throwing ''fail'' (JNum 2)),
                      OnCancelled (noop ''done'')] new_PromiseContext) \<and>
   list_all base_method
     [Catch (throwing ''catch'' (JNum 3)), OnCancelled (noop ''late''),
      Finally (throwing ''finally'' (JNum 4))] \<and>
   calls (run ([Ok (throwing ''ok'' (JNum 1)), Fail (throwing ''fail'' (JNum 2)),
                OnCancelled (noop ''done'')] @
               Cancel #
               [Catch (throwing ''catch'' (JNum 3)), OnCancelled (noop ''late''),
                Finally (throwing ''finally'' (JNum 4))] @
               [Settle (Reject (JNum 418))]) new_PromiseContext) =
     [(''late'', []), (''done'', [])] \<and>
   fst (settle (Reject (JNum 418))
          (run ([Ok (throwing ''ok'' (JNum 1)), Fail (throwing ''fail'' (JNum 2)),
                 OnCancelled (noop ''done'')] @
                Cancel #
                [Catch (throwing ''catch'' (JNum 3)), OnCancelled (noop ''late''),
                 Finally (throwing ''finally'' (JNum 4))]) new_PromiseContext)) = Returns ()"
  using cancel_then_settle_calls_only_cancelled
    [of "run [Ok (throwing ''ok'' (JNum 1)), Fail (throwing ''fail'' (JNum 2)),
              OnCancelled (noop ''done'')] new_PromiseContext"
        "[Catch (throwing ''catch'' (JNum 3)), OnCancelled (noop ''late''),
          Finally (throwing ''finally'' (JNum 4))]"
        "Reject (JNum 418)"]
  by (simp add: op_defs new_PromiseContext_def noop_def throwing_def)

text \<open>
  An awaited instance with a cancellation observer that throws: the settlement call
  leaves the cancelled branch at \<^verbatim>\<open>this.context.cancelledCallback()\<close> with the thrown
  value, and the failure continuation registered by the await bridge is never called.
  An awaited instance on which \<^verbatim>\<open>fail\<close> is registered after the bridge: the signal goes
  to that failure observer, which has replaced the continuation.
\<close>

theorem awaited_cancel_counterexample:
  "calls (run [OnCancelled (throwing ''onCancelled'' (JNum 1)),
               Then (noop ''continue'') (Some (noop ''raise'')), Cancel,
               Settle (Resolve (JNum 418))] new_PromiseContext) = [(''onCancelled'', [])] \<and>
   fst (settle (Resolve (JNum 418))
          (run [OnCancelled (throwing ''onCancelled'' (JNum 1)),
                Then (noop ''continue'') (Some (noop ''raise'')), Cancel]
             new_PromiseContext)) = Throws (JNum 1) \<and>
   calls (run [Then (noop ''continue'') (Some (noop ''raise'')), Fail (noop ''onFail''),
               Cancel, Settle (Resolve (JNum 418))] new_PromiseContext) =
     [(''onFail'', [JObj [(''cancelled'', JBool True)]])]"
  by (simp add: op_defs new_PromiseContext_def noop_def throwing_def Let_def cancel_signal_def)

text \<open>
  Claim C9, as the code has it. On a pending context the await bridge with
  continuations \<open>k\<close> and \<open>rej\<close> and \<^verbatim>\<open>cancel()\<close>, in either order, make no call and
  leave the context cancelled and awaited, with \<open>k\<close> stored as success observer and
  \<open>rej\<close> as failure observer. On every cancelled, awaited context a settlement call with
  any value first calls the cancellation observer, if one is registered. When there is
  none or it returns, the failure observer stored at that moment (the continuation
  \<open>rej\<close>, unless a later \<^verbatim>\<open>fail\<close> or \<^verbatim>\<open>then\<close> has replaced it) is called once with
  the object \<^verbatim>\<open>{ cancelled: true }\<close>, and the settlement call completes as it does;
  neither the resolved value nor the rejected error is passed to any callback. When the
  cancellation observer throws, the thrown value leaves the settlement call and the
  failure observer is not called. Nothing else of the context changes.
\<close>

theorem awaited_cancel_delivers_signal:
  "(status c = Pending \<longrightarrow>
      run [Then k (Some rej), Cancel] c =
        c\<lparr>status := Cancelled, okCallback := k, failCallback := Some rej, isAwaited := True\<rparr> \<and>
      run [Cancel, Then k (Some rej)] c =
        c\<lparr>status := Cancelled, okCallback := k, failCallback := Some rej, isAwaited := True\<rparr>) \<and>
   (status c = Cancelled \<and> isAwaited c \<and> failCallback c = Some f \<longrightarrow>
      settle s c =
        (case cancelledCallback c of
           None \<Rightarrow>
             (discard (body f [cancel_signal]),
              c\<lparr>calls := calls c @ [(label f, [cancel_signal])]\<rparr>)
         | Some h \<Rightarrow>
             (case body h [] of
                Returns r \<Rightarrow>
                  (discard (body f [cancel_signal]),
                   c\<lparr>calls := calls c @ [(label h, []), (label f, [cancel_signal])]\<rparr>)
              | Throws x \<Rightarrow> (Throws x, c\<lparr>calls := calls c @ [(label h, [])]\<rparr>))))"
  by (cases s)
     (auto simp: op_defs Let_def split: completion.splits option.splits)

theorem awaited_cancel_delivers_signal_witness:
  "status new_PromiseContext = Pending \<and>
   status (run [Cancel, Then (noop ''continue'') (Some (noop ''raise''))] new_PromiseContext)
     = Cancelled \<and>
   isAwaited (run [Cancel, Then (noop ''continue'') (Some (noop ''raise''))] new_PromiseContext) \<and>
   map_option label
     (failCallback (run [Cancel, Then (noop ''continue'') (Some (noop ''raise''))]
                      new_PromiseContext)) = Some ''raise'' \<and>
   calls (snd (settle (Reject (JNum 418))
                 (run [Cancel, Then (noop ''continue'') (Some (noop ''raise''))]
                    new_PromiseContext))) =
     [(''raise'', [JObj [(''cancelled'', JBool True)]])] \<and>
   fst (settle (Reject (JNum 418))
          (run [Cancel, Then (noop ''continue'') (Some (noop ''raise''))]
             new_PromiseContext)) = Returns () \<and>
   settle (Resolve (JNum 418))
     (run [OnCancelled (throwing ''onCancelled'' (JNum 1)),
           Then (noop ''continue'') (Some (noop ''raise'')), Cancel] new_PromiseContext) =
     (Throws (JNum 1),
      (run [OnCancelled (throwing ''onCancelled'' (JNum 1)),
            Then (noop ''continue'') (Some (noop ''raise'')), Cancel] new_PromiseContext)
        \<lparr>calls := [(''onCancelled'', [])]\<rparr>)"
  using awaited_cancel_delivers_signal
      [of new_PromiseContext "noop ''continue''" "noop ''raise''" "noop ''raise''"
          "Reject (JNum 418)"]
    awaited_cancel_delivers_signal
      [of "run [Cancel, Then (noop ''continue'') (Some (noop ''raise''))] new_PromiseContext"
          "noop ''continue''" "noop ''raise''" "noop ''raise''" "Reject (JNum 418)"]
    awaited_cancel_delivers_signal
      [of "run [OnCancelled (throwing ''onCancelled'' (JNum 1)),
                Then (noop ''continue'') (Some (noop ''raise'')), Cancel] new_PromiseContext"
          "noop ''continue''" "noop ''raise''" "noop ''raise''" "Resolve (JNum 418)"]
  by (simp add: op_defs new_PromiseContext_def noop_def throwing_def cancel_signal_def Let_def)

end
